theory Spec2Isabelle
  imports Main
begin

section \<open>Water reminder bot (main.py)\<close>

text \<open>
  The program reads three settings from the process environment when the module is
  loaded, builds a \<open>WaterReminderBot\<close> and runs \<open>start_reminders\<close>, a loop that
  never returns. Everything the program does to the outside goes through four calls:
  \<open>print\<close>, \<open>requests.post\<close>, \<open>schedule.every(n).minutes.do(f)\<close> and
  \<open>time.sleep\<close>. The model records each of them, in order, in a trace, and takes
  what the outside answers (the HTTP outcome, the random draw, an interrupt during a
  sleep) from an environment of oracles.
\<close>

subsection \<open>Strings\<close>

text \<open>
  A Python \<open>str\<close> is modelled as its UTF-8 encoding, one \<open>char\<close> per byte. The
  non-ASCII code points of the source's literals are written out as their bytes.
\<close>

definition nl :: string where "nl = [CHR 0x0A]"

definition droplet :: string where "droplet = [CHR 0xF0, CHR 0x9F, CHR 0x92, CHR 0xA7]"
definition potable_water :: string where "potable_water = [CHR 0xF0, CHR 0x9F, CHR 0x9A, CHR 0xB0]"
definition water_wave :: string where "water_wave = [CHR 0xF0, CHR 0x9F, CHR 0x8C, CHR 0x8A]"
definition blue_heart :: string where "blue_heart = [CHR 0xF0, CHR 0x9F, CHR 0x92, CHR 0x99]"
definition sweat_droplets :: string where "sweat_droplets = [CHR 0xF0, CHR 0x9F, CHR 0x92, CHR 0xA6]"
definition cup_with_straw :: string where "cup_with_straw = [CHR 0xF0, CHR 0x9F, CHR 0xA5, CHR 0xA4]"
definition alarm_clock :: string where "alarm_clock = [CHR 0xE2, CHR 0x8F, CHR 0xB0]"
definition check_mark :: string where "check_mark = [CHR 0xE2, CHR 0x9C, CHR 0x85]"
definition cross_mark :: string where "cross_mark = [CHR 0xE2, CHR 0x9D, CHR 0x8C]"
definition rocket :: string where "rocket = [CHR 0xF0, CHR 0x9F, CHR 0x9A, CHR 0x80]"
definition stopwatch :: string where
  "stopwatch = [CHR 0xE2, CHR 0x8F, CHR 0xB1, CHR 0xEF, CHR 0xB8, CHR 0x8F]"
definition party_popper :: string where "party_popper = [CHR 0xF0, CHR 0x9F, CHR 0x8E, CHR 0x89]"
definition wrench :: string where "wrench = [CHR 0xF0, CHR 0x9F, CHR 0x94, CHR 0xA7]"
definition bullet :: string where "bullet = [CHR 0xE2, CHR 0x80, CHR 0xA2]"
definition light_bulb :: string where "light_bulb = [CHR 0xF0, CHR 0x9F, CHR 0x92, CHR 0xA1]"
definition stop_sign :: string where "stop_sign = [CHR 0xF0, CHR 0x9F, CHR 0x9B, CHR 0x91]"

text \<open>\<open>str(n)\<close> for an integer, as an f-string formats it.\<close>

definition digit_char :: "nat \<Rightarrow> char" where
  "digit_char d = ''0123456789'' ! (d mod 10)"

fun str_nat :: "nat \<Rightarrow> string" where
  "str_nat n = (if n < 10 then [digit_char n] else str_nat (n div 10) @ [digit_char (n mod 10)])"

declare str_nat.simps [simp del]

definition str_int :: "int \<Rightarrow> string" where
  "str_int i = (if i < 0 then CHR ''-'' # str_nat (nat (- i)) else str_nat (nat i))"

subsection \<open>Exceptions\<close>

text \<open>
  \<open>KeyboardInterrupt\<close> derives from \<open>BaseException\<close> only; the other two
  constructors stand for instances of subclasses of \<open>Exception\<close>, each carrying the
  text \<open>str(e)\<close>. \<open>KeyboardInterrupt\<close> is the only exception outside the
  \<open>Exception\<close> hierarchy that can arise in this program: nothing calls
  \<open>sys.exit\<close> and no signal handler is installed.
\<close>

datatype py_exn = KeyboardInterrupt | ValueError string | PyException string

fun is_Exception :: "py_exn \<Rightarrow> bool" where
  "is_Exception KeyboardInterrupt = False"
| "is_Exception (ValueError m) = True"
| "is_Exception (PyException m) = True"

fun str_exn :: "py_exn \<Rightarrow> string" where
  "str_exn KeyboardInterrupt = []"
| "str_exn (ValueError m) = m"
| "str_exn (PyException m) = m"

subsection \<open>Configuration (lines 68-70)\<close>

text \<open>
  \<open>int(s)\<close> on a string, base 10: surrounding whitespace (tab, line feed,
  vertical tab, form feed, carriage return, space) is skipped, one sign is allowed,
  then decimal digits, where single underscores may separate digits. The model
  covers ASCII input; the Unicode digits and spaces that \<open>int\<close> also accepts, and
  the interpreter's limit on the number of digits, are outside it.
\<close>

definition is_space :: "char \<Rightarrow> bool" where
  "is_space c = (c \<in> set [CHR 0x09, CHR 0x0A, CHR 0x0B, CHR 0x0C, CHR 0x0D, CHR 0x20])"

definition strip :: "string \<Rightarrow> string" where
  "strip s = rev (dropWhile is_space (rev (dropWhile is_space s)))"

definition digit_val :: "char \<Rightarrow> nat option" where
  "digit_val c = map_of (zip ''0123456789'' [0, 1, 2, 3, 4, 5, 6, 7, 8, 9]) c"

fun parse_digits :: "nat \<Rightarrow> string \<Rightarrow> nat option" where
  "parse_digits acc [] = Some acc"
| "parse_digits acc [c] =
     (case digit_val c of Some d \<Rightarrow> Some (10 * acc + d) | None \<Rightarrow> None)"
| "parse_digits acc (c # c' # cs) =
     (case digit_val c of
        Some d \<Rightarrow> parse_digits (10 * acc + d) (c' # cs)
      | None \<Rightarrow>
          if c = CHR ''_'' then
            (case digit_val c' of
               Some d \<Rightarrow> parse_digits (10 * acc + d) cs
             | None \<Rightarrow> None)
          else None)"

definition parse_unsigned :: "string \<Rightarrow> nat option" where
  "parse_unsigned s =
     (case s of
        [] \<Rightarrow> None
      | c # cs \<Rightarrow> (case digit_val c of Some d \<Rightarrow> parse_digits d cs | None \<Rightarrow> None))"

definition parse_signed :: "string \<Rightarrow> int option" where
  "parse_signed s =
     (case s of
        [] \<Rightarrow> None
      | c # cs \<Rightarrow>
          if c = CHR ''-'' then map_option (\<lambda>n. - int n) (parse_unsigned cs)
          else if c = CHR ''+'' then map_option int (parse_unsigned cs)
          else map_option int (parse_unsigned s))"

text \<open>
  The message of the \<open>ValueError\<close> quotes the literal; \<open>repr\<close>'s escaping of
  quotes and control characters is not modelled (the message is never printed by the
  program: the error is raised at module load, outside every handler).
\<close>

definition invalid_literal :: "string \<Rightarrow> string" where
  "invalid_literal s = ''invalid literal for int() with base 10: '' @ [CHR 0x27] @ s @ [CHR 0x27]"

definition py_int :: "string \<Rightarrow> py_exn + int" where
  "py_int s =
     (case parse_signed (strip s) of
        None \<Rightarrow> Inl (ValueError (invalid_literal s))
      | Some n \<Rightarrow> Inr n)"

text \<open>The module's globals; \<open>os.environ.get\<close> gives \<open>None\<close> for an unset variable.\<close>

record globals =
  BOT_TOKEN :: "string option"
  CHAT_ID :: "string option"
  REMINDER_INTERVAL :: int

text \<open>
  Line 70: \<open>int(os.environ.get('REMINDER_INTERVAL', 60))\<close>. An unset variable gives
  the integer 60, which \<open>int\<close> returns as it is; a set one gives its string.
\<close>

definition load_module :: "(string \<rightharpoonup> string) \<Rightarrow> py_exn + globals" where
  "load_module environ =
     (case (case environ ''REMINDER_INTERVAL'' of None \<Rightarrow> Inr 60 | Some s \<Rightarrow> py_int s) of
        Inl e \<Rightarrow> Inl e
      | Inr n \<Rightarrow>
          Inr \<lparr>BOT_TOKEN = environ ''BOT_TOKEN'', CHAT_ID = environ ''CHAT_ID'',
               REMINDER_INTERVAL = n\<rparr>)"

subsection \<open>The outside world\<close>

text \<open>
  The calls the program makes to its collaborators, in the order it makes them:
  \<open>print(line)\<close>, \<open>requests.post(url, data=data)\<close>,
  \<open>schedule.every(n).minutes.do(self.send_water_reminder)\<close> and \<open>time.sleep(secs)\<close>.
\<close>

datatype event =
    is_Print: Print string
  | is_Post: Post string "(string \<times> string) list"
  | is_Every: Every int
  | is_Sleep: Sleep nat

text \<open>
  What \<open>requests.post\<close> does: it returns a response (status code and body text) or
  raises. A transport-level failure is a \<open>PyException\<close>; a \<open>KeyboardInterrupt\<close> can
  arrive while the call blocks.
\<close>

datatype http_outcome = Response int string | Raises py_exn

text \<open>
  The oracles: the process environment, the outcome of the k-th POST, the k-th random
  number, and the exception (if any) that ends the k-th sleep.
\<close>

record env =
  environ :: "string \<rightharpoonup> string"
  http :: "nat \<Rightarrow> http_outcome"
  rand :: "nat \<Rightarrow> nat"
  signal :: "nat \<Rightarrow> py_exn option"

text \<open>A job of the scheduler: its interval in minutes and the second at which it is due.\<close>

record job =
  interval :: int
  next_run :: int

text \<open>
  The world: the trace of calls made so far (oldest first), the scheduler's job list,
  the local wall clock in seconds, and how many answers of each oracle are used up.
\<close>

record world =
  trace :: "event list"
  jobs :: "job list"
  clock :: nat
  posts_made :: nat
  rands_drawn :: nat
  sleeps_done :: nat

definition print :: "string \<Rightarrow> world \<Rightarrow> world" where
  "print line w = w\<lparr>trace := trace w @ [Print line]\<rparr>"

definition requests_post ::
  "env \<Rightarrow> string \<Rightarrow> (string \<times> string) list \<Rightarrow> world \<Rightarrow> http_outcome \<times> world" where
  "requests_post E url data w =
     (http E (posts_made w),
      w\<lparr>trace := trace w @ [Post url data], posts_made := Suc (posts_made w)\<rparr>)"

text \<open>
  \<open>random.choice(xs)\<close> is \<open>xs[randbelow(len(xs))]\<close>; on an empty sequence it raises
  \<open>IndexError\<close>.
\<close>

definition random_choice :: "env \<Rightarrow> 'a list \<Rightarrow> world \<Rightarrow> (py_exn + 'a) \<times> world" where
  "random_choice E xs w =
     (if xs = [] then (Inl (PyException ''Cannot choose from an empty sequence''), w)
      else (Inr (xs ! (rand E (rands_drawn w) mod length xs)),
            w\<lparr>rands_drawn := Suc (rands_drawn w)\<rparr>))"

text \<open>\<open>datetime.now().strftime("%H:%M")\<close>: hour and minute of the day, two digits each.\<close>

definition two_digits :: "nat \<Rightarrow> string" where
  "two_digits n = [digit_char (n div 10), digit_char (n mod 10)]"

definition strftime_HM :: "nat \<Rightarrow> string" where
  "strftime_HM t = two_digits (t div 3600 mod 24) @ '':'' @ two_digits (t div 60 mod 60)"

text \<open>
  \<open>time.sleep(secs)\<close>: the clock moves on by \<open>secs\<close>, unless an exception ends the
  sleep.
\<close>

definition sleep :: "env \<Rightarrow> nat \<Rightarrow> world \<Rightarrow> (py_exn + unit) \<times> world" where
  "sleep E secs w =
     (let w1 = w\<lparr>trace := trace w @ [Sleep secs], sleeps_done := Suc (sleeps_done w)\<rparr>
      in case signal E (sleeps_done w) of
           Some e \<Rightarrow> (Inl e, w1)
         | None \<Rightarrow> (Inr (), w1\<lparr>clock := clock w + secs\<rparr>))"

subsection \<open>class WaterReminderBot (lines 73-183)\<close>

record bot =
  bot_token :: string
  chat_id :: string
  base_url :: string

text \<open>\<open>__init__\<close> (lines 79-87).\<close>

definition WaterReminderBot :: "string \<Rightarrow> string \<Rightarrow> bot" where
  "WaterReminderBot token chat =
     \<lparr>bot_token = token, chat_id = chat, base_url = ''https://api.telegram.org/bot'' @ token\<rparr>"

text \<open>
  A method takes the object \<open>self\<close> and the world and gives back its result
  (\<open>Inl\<close> an exception that it lets escape, \<open>Inr ()\<close> a normal return) with the
  object and the world as it leaves them.
\<close>

type_synonym state = "bot \<times> world"
type_synonym result = "(py_exn + unit) \<times> state"

text \<open>\<open>send_message\<close> (lines 89-117).\<close>

definition send_message :: "env \<Rightarrow> string \<Rightarrow> state \<Rightarrow> result" where
  "send_message E message s =
     (let (self, w) = s;
          url = base_url self @ ''/sendMessage'';
          data = [(''chat_id'', chat_id self), (''text'', message), (''parse_mode'', ''HTML'')];
          (outcome, w1) = requests_post E url data w
      in case outcome of
           Response status_code text \<Rightarrow>
             if status_code = 200
             then (Inr (), self, print (check_mark @ '' Message sent: '' @ message) w1)
             else (Inr (), self, print (cross_mark @ '' Failed to send message: '' @ text) w1)
         | Raises e \<Rightarrow>
             if is_Exception e
             then (Inr (), self, print (cross_mark @ '' Error sending message: '' @ str_exn e) w1)
             else (Inl e, self, w1))"

text \<open>\<open>send_water_reminder\<close> (lines 119-144).\<close>

definition messages :: "string list" where
  "messages =
     [droplet @ '' Time to drink water! Stay hydrated! '' @ potable_water,
      water_wave @ '' Hydration check! Drink a glass of water now! '' @ blue_heart,
      sweat_droplets @ '' Your body needs water! Take a sip! '' @ cup_with_straw,
      potable_water @ '' Water break time! Keep yourself healthy! '' @ droplet,
      blue_heart @ '' Reminder: Drink water for better health! '' @ water_wave]"

definition full_message :: "string \<Rightarrow> string \<Rightarrow> string" where
  "full_message current_time message =
     alarm_clock @ '' <b>'' @ current_time @ ''</b>'' @ nl @ message"

definition send_water_reminder :: "env \<Rightarrow> state \<Rightarrow> result" where
  "send_water_reminder E s =
     (let (self, w) = s
      in case random_choice E messages w of
           (Inl e, w1) \<Rightarrow> (Inl e, self, w1)
         | (Inr message, w1) \<Rightarrow>
             send_message E (full_message (strftime_HM (clock w1)) message) (self, w1))"

subsection \<open>The scheduler\<close>

text \<open>
  Modelled from the spec: the third-party \<open>schedule\<close> library, which is not part of
  the repository. \<open>schedule.every(n).minutes.do(f)\<close> appends a job that is first due
  \<open>n\<close> minutes from now. \<open>schedule.run_pending()\<close> checks, for each job, whether
  its interval has elapsed since it was scheduled or last fired; if so it fires the
  job once and makes it due one interval later. The only function ever scheduled is
  \<open>self.send_water_reminder\<close>, so a job does not record its function. An exception
  raised by a job escapes \<open>run_pending\<close>. Failures of the library itself (a due
  time beyond the range of \<open>datetime\<close>, for an interval of thousands of years) are
  not modelled.
\<close>

definition every_minutes_do :: "int \<Rightarrow> world \<Rightarrow> world" where
  "every_minutes_do n w =
     w\<lparr>trace := trace w @ [Every n],
       jobs := jobs w @ [\<lparr>interval = n, next_run = int (clock w) + 60 * n\<rparr>]\<rparr>"

fun run_jobs :: "env \<Rightarrow> nat list \<Rightarrow> state \<Rightarrow> result" where
  "run_jobs E [] s = (Inr (), s)"
| "run_jobs E (i # rest) (self, w) =
     (let j = jobs w ! i
      in if next_run j \<le> int (clock w) then
           (case send_water_reminder E (self, w) of
              (Inl e, s') \<Rightarrow> (Inl e, s')
            | (Inr u, self', w') \<Rightarrow>
                run_jobs E rest
                  (self', w'\<lparr>jobs := (jobs w')[i := j\<lparr>next_run := int (clock w') + 60 * interval j\<rparr>]\<rparr>))
         else run_jobs E rest (self, w))"

definition run_pending :: "env \<Rightarrow> state \<Rightarrow> result" where
  "run_pending E s = run_jobs E [0..<length (jobs (snd s))] s"

subsection \<open>start_reminders (lines 146-175)\<close>

definition welcome_message :: "int \<Rightarrow> string" where
  "welcome_message n =
     party_popper @ '' <b>Water Reminder Bot Activated!</b>'' @ nl @
     droplet @ '' You'll receive reminders every '' @ str_int n @ '' minutes.'' @ nl @ nl @
     wrench @ '' Commands:'' @ nl @
     bullet @ '' Send 'stop' to pause'' @ nl @
     bullet @ '' Send 'start' to resume''"

text \<open>Lines 152-167: everything \<open>start_reminders\<close> does before its loop.\<close>

definition startup :: "env \<Rightarrow> globals \<Rightarrow> state \<Rightarrow> result" where
  "startup E g s =
     (let (self, w) = s;
          w1 = print (rocket @ '' Water reminder bot started!'') w;
          w2 = print (stopwatch @ '' Reminder interval: '' @ str_int (REMINDER_INTERVAL g)
                        @ '' minutes'') w1;
          w3 = every_minutes_do (REMINDER_INTERVAL g) w2
      in send_message E (welcome_message (REMINDER_INTERVAL g)) (self, w3))"

text \<open>Lines 173-175: one turn of the loop.\<close>

definition loop_body :: "env \<Rightarrow> state \<Rightarrow> result" where
  "loop_body E s =
     (case run_pending E s of
        (Inl e, s') \<Rightarrow> (Inl e, s')
      | (Inr u, self, w) \<Rightarrow>
          (case sleep E 1 w of
             (Inl e, w') \<Rightarrow> (Inl e, self, w')
           | (Inr u', w') \<Rightarrow> (Inr (), self, w')))"

text \<open>
  Lines 171-175: \<open>while True\<close>. The loop has no exit: it ends only when an exception
  escapes its body, and \<open>None\<close> is the run that goes on forever.
\<close>

partial_function (option) polling_loop :: "env \<Rightarrow> state \<Rightarrow> result option" where
  "polling_loop E s =
     (case loop_body E s of
        (Inl e, s') \<Rightarrow> Some (Inl e, s')
      | (Inr u, s') \<Rightarrow> polling_loop E s')"

definition start_reminders :: "env \<Rightarrow> globals \<Rightarrow> state \<Rightarrow> result option" where
  "start_reminders E g s =
     (case startup E g s of
        (Inl e, s') \<Rightarrow> Some (Inl e, s')
      | (Inr u, s') \<Rightarrow> polling_loop E s')"

text \<open>The state after \<open>n\<close> turns of the loop, while no exception has escaped.\<close>

fun turns :: "env \<Rightarrow> nat \<Rightarrow> state \<Rightarrow> result" where
  "turns E 0 s = (Inr (), s)"
| "turns E (Suc n) s =
     (case loop_body E s of
        (Inl e, s') \<Rightarrow> (Inl e, s')
      | (Inr u, s') \<Rightarrow> turns E n s')"

subsection \<open>main (lines 186-211) and the module (lines 216-217)\<close>

text \<open>\<open>not v\<close> for a value that is \<open>None\<close> or a string.\<close>

definition py_not :: "string option \<Rightarrow> bool" where
  "py_not v = (case v of None \<Rightarrow> True | Some s \<Rightarrow> s = [])"

definition missing_diagnostic :: "world \<Rightarrow> world" where
  "missing_diagnostic w =
     print (light_bulb @ '' Make sure you've set up these variables in Railway/Heroku'')
       (print (cross_mark @ '' Error: BOT_TOKEN and CHAT_ID environment variables are required!'') w)"

text \<open>
  The two handlers of \<open>main\<close>, in the source's order, applied to what
  \<open>start_reminders\<close> gave; the object is local to \<open>main\<close> and is dropped.
\<close>

definition handlers :: "result \<Rightarrow> (py_exn + unit) \<times> world" where
  "handlers r =
     (case r of
        (Inr u, self, w) \<Rightarrow> (Inr (), w)
      | (Inl e, self, w) \<Rightarrow>
          if e = KeyboardInterrupt then (Inr (), print (nl @ stop_sign @ '' Bot stopped by user'') w)
          else if is_Exception e then (Inr (), print (cross_mark @ '' Error: '' @ str_exn e) w)
          else (Inl e, w))"

definition main :: "env \<Rightarrow> globals \<Rightarrow> world \<Rightarrow> ((py_exn + unit) \<times> world) option" where
  "main E g w =
     (if py_not (BOT_TOKEN g) \<or> py_not (CHAT_ID g) then Some (Inr (), missing_diagnostic w)
      else
        let bot = WaterReminderBot (the (BOT_TOKEN g)) (the (CHAT_ID g))
        in map_option handlers (start_reminders E g (bot, w)))"

text \<open>
  Running the file as a script: the module-level assignments, then \<open>main()\<close>. An
  exception of the assignments ends the process before \<open>main\<close> is called.
\<close>

definition run_module :: "env \<Rightarrow> world \<Rightarrow> ((py_exn + unit) \<times> world) option" where
  "run_module E w =
     (case load_module (environ E) of
        Inl e \<Rightarrow> Some (Inl e, w)
      | Inr g \<Rightarrow> main E g w)"

subsection \<open>Sample runs\<close>

text \<open>
  A process that has just started: nothing printed, posted or scheduled yet. The
  clock reads 14:30:00 local time.
\<close>

definition fresh_world :: world where
  "fresh_world =
     \<lparr>trace = [], jobs = [], clock = 52200, posts_made = 0, rands_drawn = 0, sleeps_done = 0\<rparr>"

text \<open>
  An environment with both credentials set, in which every POST has the given outcome,
  the k-th random number is \<open>k\<close>, and the sleep of turn \<open>n\<close> (counted from 0) is
  ended by the given exception.
\<close>

definition sample_env :: "http_outcome \<Rightarrow> nat \<Rightarrow> py_exn \<Rightarrow> env" where
  "sample_env outcome n e =
     \<lparr>environ = [''BOT_TOKEN'' \<mapsto> ''123:ABC'', ''CHAT_ID'' \<mapsto> ''42''],
      http = (\<lambda>k. outcome),
      rand = (\<lambda>k. k),
      signal = (\<lambda>k. if k = n then Some e else None)\<rparr>"

definition sample_globals :: "int \<Rightarrow> globals" where
  "sample_globals n = \<lparr>BOT_TOKEN = Some ''123:ABC'', CHAT_ID = Some ''42'', REMINDER_INTERVAL = n\<rparr>"

text \<open>The position of the first element of a list that satisfies a predicate.\<close>

definition first_index :: "('a \<Rightarrow> bool) \<Rightarrow> 'a list \<Rightarrow> nat" where
  "first_index P xs = length (takeWhile (\<lambda>x. \<not> P x) xs)"

section \<open>Properties\<close>

subsection \<open>What the methods leave unchanged\<close>

lemma send_message_frame:
  "send_message E m (b, w) = (r, b', w') \<Longrightarrow>
     b' = b \<and> jobs w' = jobs w \<and> clock w' = clock w \<and> sleeps_done w' = sleeps_done w"
  by (auto simp add: send_message_def requests_post_def print_def Let_def split: http_outcome.splits if_splits)

lemma send_water_reminder_frame:
  "send_water_reminder E (b, w) = (r, b', w') \<Longrightarrow>
     b' = b \<and> jobs w' = jobs w \<and> clock w' = clock w \<and> sleeps_done w' = sleeps_done w"
  by (auto simp add: send_water_reminder_def random_choice_def messages_def Let_def dest!: send_message_frame)

lemma run_jobs_frame:
  "run_jobs E is s = (r, b', w') \<Longrightarrow>
     b' = fst s \<and> length (jobs w') = length (jobs (snd s)) \<and> clock w' = clock (snd s) \<and> sleeps_done w' = sleeps_done (snd s)"
proof (induction E "is" s arbitrary: r b' w' rule: run_jobs.induct)
  case (1 E s)
  then show ?case by auto
next
  case (2 E i rest self w)
  define j where "j = jobs w ! i"
  show ?case
  proof (cases "next_run j \<le> int (clock w)")
    case False
    with 2(3) have "run_jobs E rest (self, w) = (r, b', w')"
      by (simp add: j_def Let_def)
    from 2(2) [OF j_def False this] show ?thesis by simp
  next
    case True
    obtain r1 b1 w1 where swr: "send_water_reminder E (self, w) = (r1, b1, w1)"
      by (cases "send_water_reminder E (self, w)") auto
    note fr = send_water_reminder_frame [OF swr]
    show ?thesis
    proof (cases r1)
      case (Inl e)
      with 2(3) True swr have "(r, b', w') = (Inl e, b1, w1)" by (simp add: j_def Let_def)
      with fr show ?thesis by simp
    next
      case (Inr u)
      with 2(3) True swr
      have "run_jobs E rest (b1, w1\<lparr>jobs := (jobs w1)[i := j\<lparr>next_run := int (clock w1) + 60 * interval j\<rparr>]\<rparr>) = (r, b', w')"
        by (simp add: j_def Let_def)
      from 2(1) [OF j_def True _ _ _ this, of r1 "(b1, w1)" u] swr Inr fr
      show ?thesis by simp
    qed
  qed
qed

lemma run_pending_frame:
  "run_pending E (b, w) = (r, b', w') \<Longrightarrow> b' = b \<and> sleeps_done w' = sleeps_done w"
  unfolding run_pending_def by (drule run_jobs_frame) simp

lemma loop_body_frame: "loop_body E (b, w) = (r, b', w') \<Longrightarrow> b' = b"
  by (auto simp: loop_body_def sleep_def Let_def split: prod.splits sum.splits option.splits
           dest: run_pending_frame)

lemma loop_body_sleeps:
  "loop_body E (b, w) = (Inr u, b', w') \<Longrightarrow> sleeps_done w' = Suc (sleeps_done w)"
  by (auto simp: loop_body_def sleep_def Let_def split: prod.splits sum.splits option.splits
           dest: run_pending_frame)

lemma loop_body_signal:
  "signal E (sleeps_done w) = Some e \<Longrightarrow> \<exists>e' s'. loop_body E (b, w) = (Inl e', s')"
  by (auto simp: loop_body_def sleep_def Let_def split: prod.splits sum.splits option.splits
           dest: run_pending_frame)

lemma polling_loop_returns:
  "signal E (sleeps_done w + k) = Some e \<Longrightarrow> \<exists>e' s'. polling_loop E (b, w) = Some (Inl e', s')"
proof (induction k arbitrary: b w)
  case 0
  then obtain e' s' where "loop_body E (b, w) = (Inl e', s')"
    using loop_body_signal [of E w e b] by auto
  then show ?case by (subst polling_loop.simps) simp
next
  case (Suc k)
  obtain r b1 w1 where lb: "loop_body E (b, w) = (r, b1, w1)"
    by (cases "loop_body E (b, w)") auto
  show ?case
  proof (cases r)
    case (Inl e1)
    with lb show ?thesis by (subst polling_loop.simps) simp
  next
    case (Inr u)
    with lb have "sleeps_done w1 = Suc (sleeps_done w)" by (auto dest: loop_body_sleeps)
    with Suc.prems have "signal E (sleeps_done w1 + k) = Some e" by simp
    from Suc.IH [OF this, of b1] obtain e' s' where "polling_loop E (b1, w1) = Some (Inl e', s')"
      by auto
    with lb Inr show ?thesis by (subst polling_loop.simps) simp
  qed
qed

lemma polling_loop_frame:
  assumes "polling_loop E s = Some r"
  shows "fst (snd r) = fst s \<and> isl (fst r)"
proof (rule polling_loop.raw_induct [OF _ assms])
  fix lp E s r
  assume IH: "\<And>E s r. lp E s = Some r \<Longrightarrow> fst (snd r) = fst s \<and> isl (fst r)"
    and body: "(case loop_body E s of (Inl e, s') \<Rightarrow> Some (Inl e, s') | (Inr u, s') \<Rightarrow> lp E s') = Some r"
  obtain r1 b1 w1 where lb: "loop_body E s = (r1, b1, w1)"
    by (cases "loop_body E s") auto
  then have b1: "b1 = fst s" using loop_body_frame [of E "fst s" "snd s" r1 b1 w1] by simp
  show "fst (snd r) = fst s \<and> isl (fst r)"
  proof (cases r1)
    case (Inl e)
    with body lb b1 show ?thesis by auto
  next
    case (Inr u)
    with body lb have "lp E (b1, w1) = Some r" by simp
    from IH [OF this] b1 show ?thesis by simp
  qed
qed

lemma turns_frame: "fst (snd (turns E n (b, w))) = b"
proof (induction n arbitrary: w)
  case 0
  show ?case by simp
next
  case (Suc n)
  obtain r1 b1 w1 where lb: "loop_body E (b, w) = (r1, b1, w1)"
    by (cases "loop_body E (b, w)") auto
  then have "b1 = b" by (rule loop_body_frame)
  with lb Suc show ?case by (cases r1) auto
qed

lemma send_water_reminder_returns:
  assumes "(\<exists>c t. http E (posts_made w) = Response c t) \<or>
           (\<exists>e. http E (posts_made w) = Raises e \<and> is_Exception e)"
  shows "fst (send_water_reminder E (b, w)) = Inr ()"
  using assms
  by (auto simp: send_water_reminder_def random_choice_def messages_def
                 send_message_def requests_post_def print_def Let_def)

lemma loop_continues:
  assumes "(\<exists>c t. http E (posts_made w) = Response c t) \<or>
           (\<exists>e. http E (posts_made w) = Raises e \<and> is_Exception e)"
    and "jobs w = [j]" and "signal E (sleeps_done w) = None"
  shows "fst (loop_body E (b, w)) = Inr ()"
proof -
  obtain r1 b1 w1 where swr: "send_water_reminder E (b, w) = (r1, b1, w1)"
    by (cases "send_water_reminder E (b, w)") auto
  with send_water_reminder_returns [OF assms(1), of b] have r1: "r1 = Inr ()" by simp
  from send_water_reminder_frame [OF swr] have "sleeps_done w1 = sleeps_done w" by simp
  with assms(2,3) swr r1 show ?thesis
    by (simp add: loop_body_def run_pending_def sleep_def Let_def)
qed

lemma startup_frame:
  "startup E g (b, w) = (r, b', w') \<Longrightarrow> b' = b \<and> sleeps_done w' = sleeps_done w"
  by (auto simp: startup_def Let_def every_minutes_do_def print_def dest!: send_message_frame)

lemma start_reminders_frame:
  assumes "start_reminders E g (b, w) = Some r"
  shows "fst (snd r) = b \<and> isl (fst r)"
proof -
  obtain r1 b1 w1 where st: "startup E g (b, w) = (r1, b1, w1)"
    by (cases "startup E g (b, w)") auto
  then have b1: "b1 = b" by (auto dest: startup_frame)
  show ?thesis
  proof (cases r1)
    case (Inl e)
    with assms st b1 show ?thesis by (auto simp: start_reminders_def)
  next
    case (Inr u)
    with assms st have "polling_loop E (b1, w1) = Some r" by (simp add: start_reminders_def)
    from polling_loop_frame [OF this] b1 show ?thesis by simp
  qed
qed

lemma start_reminders_returns:
  assumes "signal E (sleeps_done w + k) = Some e"
  shows "\<exists>e' s'. start_reminders E g (b, w) = Some (Inl e', s')"
proof -
  obtain r1 b1 w1 where st: "startup E g (b, w) = (r1, b1, w1)"
    by (cases "startup E g (b, w)") auto
  then have sl: "sleeps_done w1 = sleeps_done w" by (auto dest: startup_frame)
  show ?thesis
  proof (cases r1)
    case (Inl e1)
    with st show ?thesis by (simp add: start_reminders_def)
  next
    case (Inr u)
    from assms sl have "signal E (sleeps_done w1 + k) = Some e" by simp
    from polling_loop_returns [OF this, of b1] st Inr show ?thesis
      by (simp add: start_reminders_def)
  qed
qed

subsection \<open>A sample run\<close>

text \<open>
  Both credentials set, interval 60, every POST answered with 200, and an exception
  \<open>e\<close> that ends the first sleep.
\<close>

lemma sample_startup:
  "startup (sample_env (Response 200 ''{}'') 0 e) (sample_globals 60)
     (WaterReminderBot ''123:ABC'' ''42'', fresh_world) =
   (Inr (), WaterReminderBot ''123:ABC'' ''42'',
    fresh_world\<lparr>trace :=
       [Print (rocket @ '' Water reminder bot started!''),
        Print (stopwatch @ '' Reminder interval: 60 minutes''),
        Every 60,
        Post ''https://api.telegram.org/bot123:ABC/sendMessage''
          [(''chat_id'', ''42''), (''text'', welcome_message 60), (''parse_mode'', ''HTML'')],
        Print (check_mark @ '' Message sent: '' @ welcome_message 60)],
      jobs := [\<lparr>interval = 60, next_run = 55800\<rparr>],
      posts_made := 1\<rparr>)"
  by (simp add: startup_def sample_env_def sample_globals_def fresh_world_def WaterReminderBot_def
        send_message_def requests_post_def print_def every_minutes_do_def Let_def
        str_int_def str_nat.simps digit_char_def)

lemma sample_start_reminders:
  "start_reminders (sample_env (Response 200 ''{}'') 0 e) (sample_globals 60)
     (WaterReminderBot ''123:ABC'' ''42'', fresh_world) =
   Some (Inl e, WaterReminderBot ''123:ABC'' ''42'',
    fresh_world\<lparr>trace :=
       [Print (rocket @ '' Water reminder bot started!''),
        Print (stopwatch @ '' Reminder interval: 60 minutes''),
        Every 60,
        Post ''https://api.telegram.org/bot123:ABC/sendMessage''
          [(''chat_id'', ''42''), (''text'', welcome_message 60), (''parse_mode'', ''HTML'')],
        Print (check_mark @ '' Message sent: '' @ welcome_message 60),
        Sleep 1],
      jobs := [\<lparr>interval = 60, next_run = 55800\<rparr>],
      posts_made := 1, sleeps_done := 1\<rparr>)"
  unfolding start_reminders_def sample_startup
  by (subst polling_loop.simps)
     (simp add: loop_body_def run_pending_def sleep_def sample_env_def fresh_world_def Let_def)

subsection \<open>The reminder text\<close>

text \<open>
  C1: every call of \<open>send_water_reminder\<close> hands to \<open>send_message\<close> the text made
  of the alarm-clock prefix, the local time as HH:MM in bold, a newline and one of the
  five templates. The templates are five different strings, the one chosen is
  determined by the random draw, and each of them is chosen for some draw. The time
  is the hour (below 24) and minute (below 60) of the clock, two digits each.
\<close>

theorem send_water_reminder_text:
  "length messages = 5 \<and> distinct messages \<and>
   (\<exists>i<5. send_water_reminder E (b, w) =
        send_message E (alarm_clock @ '' <b>'' @ strftime_HM (clock w) @ ''</b>'' @ nl @ messages ! i)
          (b, w\<lparr>rands_drawn := Suc (rands_drawn w)\<rparr>)) \<and>
   (\<forall>i<5. rand E (rands_drawn w) = i \<longrightarrow>
        send_water_reminder E (b, w) =
        send_message E (alarm_clock @ '' <b>'' @ strftime_HM (clock w) @ ''</b>'' @ nl @ messages ! i)
          (b, w\<lparr>rands_drawn := Suc (rands_drawn w)\<rparr>)) \<and>
   (\<exists>h<24. \<exists>mi<60. h = clock w div 3600 mod 24 \<and> mi = clock w div 60 mod 60 \<and>
        strftime_HM (clock w) =
          [digit_char (h div 10), digit_char (h mod 10), CHR '':'',
           digit_char (mi div 10), digit_char (mi mod 10)])"
proof -
  have len: "length messages = 5" by (simp add: messages_def)
  have dist: "distinct messages"
    by (simp add: messages_def droplet_def potable_water_def water_wave_def blue_heart_def
                  sweat_droplets_def cup_with_straw_def)
  have eq: "send_water_reminder E (b, w) =
        send_message E (alarm_clock @ '' <b>'' @ strftime_HM (clock w) @ ''</b>'' @ nl
                          @ messages ! (rand E (rands_drawn w) mod 5))
          (b, w\<lparr>rands_drawn := Suc (rands_drawn w)\<rparr>)"
    using len by (auto simp: send_water_reminder_def random_choice_def full_message_def)
  have ex: "\<exists>i<5. send_water_reminder E (b, w) =
        send_message E (alarm_clock @ '' <b>'' @ strftime_HM (clock w) @ ''</b>'' @ nl @ messages ! i)
          (b, w\<lparr>rands_drawn := Suc (rands_drawn w)\<rparr>)"
    using eq by (intro exI [of _ "rand E (rands_drawn w) mod 5"]) simp
  have all: "\<forall>i<5. rand E (rands_drawn w) = i \<longrightarrow>
        send_water_reminder E (b, w) =
        send_message E (alarm_clock @ '' <b>'' @ strftime_HM (clock w) @ ''</b>'' @ nl @ messages ! i)
          (b, w\<lparr>rands_drawn := Suc (rands_drawn w)\<rparr>)"
    using eq by auto
  have fmt: "\<exists>h<24. \<exists>mi<60. h = clock w div 3600 mod 24 \<and> mi = clock w div 60 mod 60 \<and>
        strftime_HM (clock w) =
          [digit_char (h div 10), digit_char (h mod 10), CHR '':'',
           digit_char (mi div 10), digit_char (mi mod 10)]"
    by (simp add: strftime_HM_def two_digits_def)
  from len dist ex all fmt show ?thesis by blast
qed


theorem send_water_reminder_text_witness:
  "rand (sample_env (Response 200 ''{}'') 0 KeyboardInterrupt) (rands_drawn fresh_world) = 0 \<and>
   send_water_reminder (sample_env (Response 200 ''{}'') 0 KeyboardInterrupt)
     (WaterReminderBot ''123:ABC'' ''42'', fresh_world) =
   send_message (sample_env (Response 200 ''{}'') 0 KeyboardInterrupt)
     (alarm_clock @ '' <b>14:30</b>'' @ nl @
      droplet @ '' Time to drink water! Stay hydrated! '' @ potable_water)
     (WaterReminderBot ''123:ABC'' ''42'', fresh_world\<lparr>rands_drawn := 1\<rparr>)"
  using send_water_reminder_text
    [of "sample_env (Response 200 ''{}'') 0 KeyboardInterrupt" "WaterReminderBot ''123:ABC'' ''42''"
        fresh_world]
  by (simp add: sample_env_def fresh_world_def messages_def strftime_HM_def two_digits_def
                digit_char_def)

subsection \<open>The outbound send\<close>

text \<open>
  C5: every call of \<open>send_message\<close> by a bot built from a token and a chat id makes
  one POST, to \<open>https://api.telegram.org/bot<token>/sendMessage\<close>, with exactly the
  fields \<open>chat_id\<close>, \<open>text\<close> and \<open>parse_mode=HTML\<close>; whatever else it appends to
  the trace is printed lines. It logs the success line if and only if the response's
  status code is 200.
\<close>

theorem send_message_wire_call:
  "\<exists>log. send_message E m (WaterReminderBot token chat, w) =
     (if (\<exists>e. http E (posts_made w) = Raises e \<and> \<not> is_Exception e)
      then Inl KeyboardInterrupt else Inr (),
      WaterReminderBot token chat,
      w\<lparr>trace := trace w @
           Post (''https://api.telegram.org/bot'' @ token @ ''/sendMessage'')
                [(''chat_id'', chat), (''text'', m), (''parse_mode'', ''HTML'')] # log,
         posts_made := Suc (posts_made w)\<rparr>)
     \<and> list_all is_Print log
     \<and> (log = [Print (check_mark @ '' Message sent: '' @ m)]
          \<longleftrightarrow> (\<exists>t. http E (posts_made w) = Response 200 t))"
proof (cases "http E (posts_made w)")
  case (Response c t)
  show ?thesis
  proof (cases "c = 200")
    case True
    with Response show ?thesis
      by (intro exI [of _ "[Print (check_mark @ '' Message sent: '' @ m)]"])
         (simp add: send_message_def requests_post_def print_def Let_def WaterReminderBot_def)
  next
    case False
    with Response show ?thesis
      by (intro exI [of _ "[Print (cross_mark @ '' Failed to send message: '' @ t)]"])
         (simp add: send_message_def requests_post_def print_def Let_def WaterReminderBot_def
                    check_mark_def cross_mark_def)
  qed
next
  case (Raises e)
  show ?thesis
  proof (cases "is_Exception e")
    case True
    with Raises show ?thesis
      by (intro exI [of _ "[Print (cross_mark @ '' Error sending message: '' @ str_exn e)]"])
         (simp add: send_message_def requests_post_def print_def Let_def WaterReminderBot_def
                    check_mark_def cross_mark_def)
  next
    case False
    then have "e = KeyboardInterrupt" by (cases e) simp_all
    with Raises show ?thesis
      by (intro exI [of _ "[]"])
         (simp add: send_message_def requests_post_def print_def Let_def WaterReminderBot_def)
  qed
qed

subsection \<open>The bot object is never mutated\<close>

text \<open>
  C8: the constructor sets the three fields from its arguments, and
  \<open>send_message\<close>, \<open>send_water_reminder\<close> and \<open>start_reminders\<close> (its part before
  the loop, any number of turns of its loop, and the whole of it when it ends) leave
  the object as it was.
\<close>

theorem bot_never_mutated:
  "bot_token (WaterReminderBot t c) = t \<and> chat_id (WaterReminderBot t c) = c \<and>
   base_url (WaterReminderBot t c) = ''https://api.telegram.org/bot'' @ t \<and>
   fst (snd (send_message E m (b, w))) = b \<and>
   fst (snd (send_water_reminder E (b, w))) = b \<and>
   fst (snd (startup E g (b, w))) = b \<and>
   fst (snd (turns E n (b, w))) = b \<and>
   (\<forall>r. start_reminders E g (b, w) = Some r \<longrightarrow> fst (snd r) = b)"
proof -
  have 1: "fst (snd (send_message E m (b, w))) = b"
    using send_message_frame [of E m b w] by (cases "send_message E m (b, w)") auto
  have 2: "fst (snd (send_water_reminder E (b, w))) = b"
    using send_water_reminder_frame [of E b w] by (cases "send_water_reminder E (b, w)") auto
  have 3: "fst (snd (startup E g (b, w))) = b"
    using startup_frame [of E g b w] by (cases "startup E g (b, w)") auto
  have 4: "\<forall>r. start_reminders E g (b, w) = Some r \<longrightarrow> fst (snd r) = b"
    using start_reminders_frame by blast
  from 1 2 3 4 turns_frame [of E n b w] show ?thesis
    by (simp add: WaterReminderBot_def)
qed

theorem bot_never_mutated_witness:
  "start_reminders (sample_env (Response 200 ''{}'') 0 KeyboardInterrupt) (sample_globals 60)
     (WaterReminderBot ''123:ABC'' ''42'', fresh_world) \<noteq> None \<and>
   fst (snd (the (start_reminders (sample_env (Response 200 ''{}'') 0 KeyboardInterrupt)
     (sample_globals 60) (WaterReminderBot ''123:ABC'' ''42'', fresh_world)))) =
   \<lparr>bot_token = ''123:ABC'', chat_id = ''42'',
    base_url = ''https://api.telegram.org/bot123:ABC''\<rparr>"
  using bot_never_mutated
    [of "''123:ABC''" "''42''" "sample_env (Response 200 ''{}'') 0 KeyboardInterrupt" "''hi''"
        "WaterReminderBot ''123:ABC'' ''42''" fresh_world "sample_globals 60" 0]
    sample_start_reminders [of KeyboardInterrupt]
  by (simp add: WaterReminderBot_def)


subsection \<open>Delivery failures stay inside \<open>send_message\<close>\<close>

text \<open>
  C2: whatever the message, when the POST is answered (with status 200 or any other)
  or fails with an exception of the \<open>Exception\<close> hierarchy, \<open>send_message\<close> makes
  exactly one POST, prints one line saying what happened, and returns normally with
  nothing else changed. So \<open>send_water_reminder\<close> returns normally too, and a turn
  of the loop in which the (single) job fires goes on to its sleep and completes.
\<close>

theorem send_message_never_raises:
  assumes "(\<exists>c t. http E (posts_made w) = Response c t) \<or>
           (\<exists>e. http E (posts_made w) = Raises e \<and> is_Exception e)"
  shows "send_message E m (b, w) =
     (Inr (), b,
      w\<lparr>trace := trace w @
           [Post (base_url b @ ''/sendMessage'')
                 [(''chat_id'', chat_id b), (''text'', m), (''parse_mode'', ''HTML'')],
            Print (case http E (posts_made w) of
                     Response c t \<Rightarrow>
                       if c = 200 then check_mark @ '' Message sent: '' @ m
                       else cross_mark @ '' Failed to send message: '' @ t
                   | Raises e \<Rightarrow> cross_mark @ '' Error sending message: '' @ str_exn e)],
         posts_made := Suc (posts_made w)\<rparr>) \<and>
     fst (send_water_reminder E (b, w)) = Inr () \<and>
     (\<forall>j. jobs w = [j] \<and> signal E (sleeps_done w) = None \<longrightarrow> fst (loop_body E (b, w)) = Inr ())"
proof -
  have "send_message E m (b, w) =
     (Inr (), b,
      w\<lparr>trace := trace w @
           [Post (base_url b @ ''/sendMessage'')
                 [(''chat_id'', chat_id b), (''text'', m), (''parse_mode'', ''HTML'')],
            Print (case http E (posts_made w) of
                     Response c t \<Rightarrow>
                       if c = 200 then check_mark @ '' Message sent: '' @ m
                       else cross_mark @ '' Failed to send message: '' @ t
                   | Raises e \<Rightarrow> cross_mark @ '' Error sending message: '' @ str_exn e)],
         posts_made := Suc (posts_made w)\<rparr>)"
    using assms by (auto simp: send_message_def requests_post_def print_def Let_def)
  moreover have "fst (send_water_reminder E (b, w)) = Inr ()"
    using assms by (rule send_water_reminder_returns)
  moreover have "\<forall>j. jobs w = [j] \<and> signal E (sleeps_done w) = None \<longrightarrow> fst (loop_body E (b, w)) = Inr ()"
    using loop_continues [OF assms] by blast
  ultimately show ?thesis by blast
qed

theorem send_message_never_raises_witness:
  "send_message (sample_env (Response 500 ''Internal Server Error'') 7 KeyboardInterrupt) ''hi''
     (WaterReminderBot ''123:ABC'' ''42'',
      fresh_world\<lparr>jobs := [\<lparr>interval = 1, next_run = 52200\<rparr>]\<rparr>) =
   (Inr (), WaterReminderBot ''123:ABC'' ''42'',
    fresh_world\<lparr>trace :=
      [Post ''https://api.telegram.org/bot123:ABC/sendMessage''
            [(''chat_id'', ''42''), (''text'', ''hi''), (''parse_mode'', ''HTML'')],
       Print (cross_mark @ '' Failed to send message: Internal Server Error'')],
      jobs := [\<lparr>interval = 1, next_run = 52200\<rparr>],
      posts_made := 1\<rparr>) \<and>
   fst (send_water_reminder (sample_env (Response 500 ''Internal Server Error'') 7 KeyboardInterrupt)
     (WaterReminderBot ''123:ABC'' ''42'',
      fresh_world\<lparr>jobs := [\<lparr>interval = 1, next_run = 52200\<rparr>]\<rparr>)) = Inr () \<and>
   fst (loop_body (sample_env (Response 500 ''Internal Server Error'') 7 KeyboardInterrupt)
     (WaterReminderBot ''123:ABC'' ''42'',
      fresh_world\<lparr>jobs := [\<lparr>interval = 1, next_run = 52200\<rparr>]\<rparr>)) = Inr ()"
  using send_message_never_raises
    [of "sample_env (Response 500 ''Internal Server Error'') 7 KeyboardInterrupt"
        "fresh_world\<lparr>jobs := [\<lparr>interval = 1, next_run = 52200\<rparr>]\<rparr>"
        "''hi''" "WaterReminderBot ''123:ABC'' ''42''"]
  by (simp add: sample_env_def fresh_world_def WaterReminderBot_def)

subsection \<open>Start-up checks of \<open>main\<close>\<close>

text \<open>
  C3: when \<open>BOT_TOKEN\<close> or \<open>CHAT_ID\<close> is unset, \<open>main\<close> prints its two diagnostic
  lines and returns: no bot is built, nothing is posted and the loop is not entered.
  When both are set (and not empty), \<open>main\<close> builds the bot from them and runs
  \<open>start_reminders\<close> under its two handlers.
\<close>

theorem main_missing_credentials:
  "(BOT_TOKEN g = None \<or> CHAT_ID g = None \<longrightarrow>
      main E g w =
        Some (Inr (),
          w\<lparr>trace := trace w @
            [Print (cross_mark @ '' Error: BOT_TOKEN and CHAT_ID environment variables are required!''),
             Print (light_bulb @ '' Make sure you've set up these variables in Railway/Heroku'')]\<rparr>)) \<and>
   (\<forall>t c. BOT_TOKEN g = Some t \<and> CHAT_ID g = Some c \<and> t \<noteq> [] \<and> c \<noteq> [] \<longrightarrow>
      main E g w = map_option handlers (start_reminders E g (WaterReminderBot t c, w)))"
  by (auto simp: main_def py_not_def missing_diagnostic_def print_def)

theorem main_missing_credentials_witness:
  "main (sample_env (Response 200 ''{}'') 0 KeyboardInterrupt)
     \<lparr>BOT_TOKEN = None, CHAT_ID = Some ''42'', REMINDER_INTERVAL = 60\<rparr> fresh_world =
   Some (Inr (),
     fresh_world\<lparr>trace :=
       [Print (cross_mark @ '' Error: BOT_TOKEN and CHAT_ID environment variables are required!''),
        Print (light_bulb @ '' Make sure you've set up these variables in Railway/Heroku'')]\<rparr>) \<and>
   main (sample_env (Response 200 ''{}'') 0 KeyboardInterrupt) (sample_globals 60) fresh_world =
   map_option handlers
     (start_reminders (sample_env (Response 200 ''{}'') 0 KeyboardInterrupt) (sample_globals 60)
        (WaterReminderBot ''123:ABC'' ''42'', fresh_world))"
  using main_missing_credentials
    [of "\<lparr>BOT_TOKEN = None, CHAT_ID = Some ''42'', REMINDER_INTERVAL = 60\<rparr>"
        "sample_env (Response 200 ''{}'') 0 KeyboardInterrupt" fresh_world]
    main_missing_credentials
    [of "sample_globals 60" "sample_env (Response 200 ''{}'') 0 KeyboardInterrupt" fresh_world]
  by (simp add: sample_globals_def fresh_world_def)

text \<open>
  C10: a \<open>BOT_TOKEN\<close> or \<open>CHAT_ID\<close> that is set to the empty string is treated as
  an unset one: \<open>main\<close> prints the diagnostic and returns, exactly as it does when
  that variable is absent.
\<close>

theorem main_empty_credentials:
  "BOT_TOKEN g = Some [] \<or> CHAT_ID g = Some [] \<Longrightarrow>
     main E g w = Some (Inr (), missing_diagnostic w) \<and>
     main E g w = main E (g\<lparr>BOT_TOKEN := None\<rparr>) w \<and>
     main E g w = main E (g\<lparr>CHAT_ID := None\<rparr>) w"
  by (auto simp: main_def py_not_def)

theorem main_empty_credentials_witness:
  "main (sample_env (Response 200 ''{}'') 0 KeyboardInterrupt)
     \<lparr>BOT_TOKEN = Some ''123:ABC'', CHAT_ID = Some [], REMINDER_INTERVAL = 60\<rparr> fresh_world =
   Some (Inr (), missing_diagnostic fresh_world) \<and>
   main (sample_env (Response 200 ''{}'') 0 KeyboardInterrupt)
     \<lparr>BOT_TOKEN = Some ''123:ABC'', CHAT_ID = Some [], REMINDER_INTERVAL = 60\<rparr> fresh_world =
   main (sample_env (Response 200 ''{}'') 0 KeyboardInterrupt)
     \<lparr>BOT_TOKEN = Some ''123:ABC'', CHAT_ID = None, REMINDER_INTERVAL = 60\<rparr> fresh_world"
  using main_empty_credentials
    [of "\<lparr>BOT_TOKEN = Some ''123:ABC'', CHAT_ID = Some [], REMINDER_INTERVAL = 60\<rparr>"
        "sample_env (Response 200 ''{}'') 0 KeyboardInterrupt" fresh_world]
  by auto

subsection \<open>How \<open>main\<close> ends\<close>

text \<open>
  C7: with both credentials set, whenever \<open>start_reminders\<close> is ended by an
  exception, \<open>main\<close> returns normally after printing one more line: the
  stopped-by-user line for a \<open>KeyboardInterrupt\<close>, the error line with the
  exception's text for any other. Nothing follows that line, so the loop is not
  started again. And an exception during some sleep does end the loop: \<open>main\<close>
  then returns.
\<close>

theorem main_catches:
  assumes "BOT_TOKEN g = Some t" and "CHAT_ID g = Some c" and "t \<noteq> []" and "c \<noteq> []"
  shows "(\<forall>e b' w'. start_reminders E g (WaterReminderBot t c, w) = Some (Inl e, b', w') \<longrightarrow>
            main E g w =
              Some (Inr (),
                w'\<lparr>trace := trace w' @
                  [Print (if e = KeyboardInterrupt then nl @ stop_sign @ '' Bot stopped by user''
                          else cross_mark @ '' Error: '' @ str_exn e)]\<rparr>)) \<and>
         (\<forall>k e. signal E (sleeps_done w + k) = Some e \<longrightarrow>
            (\<exists>w'. main E g w = Some (Inr (), w')))"
proof -
  have m: "main E g w = map_option handlers (start_reminders E g (WaterReminderBot t c, w))"
    using assms by (simp add: main_def py_not_def)
  have caught: "handlers (Inl e, b', w') =
      (Inr (), w'\<lparr>trace := trace w' @
                  [Print (if e = KeyboardInterrupt then nl @ stop_sign @ '' Bot stopped by user''
                          else cross_mark @ '' Error: '' @ str_exn e)]\<rparr>)" for e b' w'
    by (cases e) (simp_all add: handlers_def print_def)
  have 1: "\<forall>e b' w'. start_reminders E g (WaterReminderBot t c, w) = Some (Inl e, b', w') \<longrightarrow>
            main E g w =
              Some (Inr (),
                w'\<lparr>trace := trace w' @
                  [Print (if e = KeyboardInterrupt then nl @ stop_sign @ '' Bot stopped by user''
                          else cross_mark @ '' Error: '' @ str_exn e)]\<rparr>)"
    using m caught by simp
  have 2: "\<exists>w'. main E g w = Some (Inr (), w')" if "signal E (sleeps_done w + k) = Some e" for k e
  proof -
    from start_reminders_returns [OF that, of g "WaterReminderBot t c"]
    obtain e' b' w' where "start_reminders E g (WaterReminderBot t c, w) = Some (Inl e', b', w')"
      by auto
    with m caught [of e' b' w'] show ?thesis by simp
  qed
  from 1 2 show ?thesis by blast
qed


theorem main_catches_witness:
  "main (sample_env (Response 200 ''{}'') 0 KeyboardInterrupt) (sample_globals 60) fresh_world =
   Some (Inr (),
    fresh_world\<lparr>trace :=
       [Print (rocket @ '' Water reminder bot started!''),
        Print (stopwatch @ '' Reminder interval: 60 minutes''),
        Every 60,
        Post ''https://api.telegram.org/bot123:ABC/sendMessage''
          [(''chat_id'', ''42''), (''text'', welcome_message 60), (''parse_mode'', ''HTML'')],
        Print (check_mark @ '' Message sent: '' @ welcome_message 60),
        Sleep 1,
        Print (nl @ stop_sign @ '' Bot stopped by user'')],
      jobs := [\<lparr>interval = 60, next_run = 55800\<rparr>],
      posts_made := 1, sleeps_done := 1\<rparr>) \<and>
   main (sample_env (Response 200 ''{}'') 0 (PyException ''boom'')) (sample_globals 60) fresh_world =
   Some (Inr (),
    fresh_world\<lparr>trace :=
       [Print (rocket @ '' Water reminder bot started!''),
        Print (stopwatch @ '' Reminder interval: 60 minutes''),
        Every 60,
        Post ''https://api.telegram.org/bot123:ABC/sendMessage''
          [(''chat_id'', ''42''), (''text'', welcome_message 60), (''parse_mode'', ''HTML'')],
        Print (check_mark @ '' Message sent: '' @ welcome_message 60),
        Sleep 1,
        Print (cross_mark @ '' Error: boom'')],
      jobs := [\<lparr>interval = 60, next_run = 55800\<rparr>],
      posts_made := 1, sleeps_done := 1\<rparr>)"
  using main_catches
    [of "sample_globals 60" "''123:ABC''" "''42''"
        "sample_env (Response 200 ''{}'') 0 KeyboardInterrupt" fresh_world]
    main_catches
    [of "sample_globals 60" "''123:ABC''" "''42''"
        "sample_env (Response 200 ''{}'') 0 (PyException ''boom'')" fresh_world]
    sample_start_reminders [of KeyboardInterrupt]
    sample_start_reminders [of "PyException ''boom''"]
  by (simp add: sample_globals_def fresh_world_def)

subsection \<open>The interval\<close>

text \<open>
  C9: when \<open>REMINDER_INTERVAL\<close> is set to a string that \<open>int\<close> rejects, running
  the module ends with that \<open>ValueError\<close> and the world untouched: \<open>main\<close> is never
  called, so neither the credential check's diagnostic nor any POST happens.
\<close>

theorem bad_interval_raises_at_load:
  assumes "environ E ''REMINDER_INTERVAL'' = Some s" and "py_int s = Inl e"
  shows "run_module E w = Some (Inl e, w) \<and> e = ValueError (invalid_literal s)"
  using assms by (auto simp: run_module_def load_module_def py_int_def split: option.splits)

theorem bad_interval_raises_at_load_witness:
  "run_module
     ((sample_env (Response 200 ''{}'') 0 KeyboardInterrupt)
        \<lparr>environ := [''REMINDER_INTERVAL'' \<mapsto> ''sixty'']\<rparr>) fresh_world =
   Some (Inl (ValueError (invalid_literal ''sixty'')), fresh_world)"
proof -
  have "py_int ''sixty'' = Inl (ValueError (invalid_literal ''sixty''))"
    by (simp add: py_int_def strip_def is_space_def parse_signed_def parse_unsigned_def
                  digit_val_def)
  from bad_interval_raises_at_load
    [of "(sample_env (Response 200 ''{}'') 0 KeyboardInterrupt)
           \<lparr>environ := [''REMINDER_INTERVAL'' \<mapsto> ''sixty'']\<rparr>" "''sixty''" _ fresh_world, OF _ this]
  show ?thesis by simp
qed

text \<open>
  C6, as stated (every loaded configuration has an interval of at least 1), fails:
  with \<open>REMINDER_INTERVAL=0\<close> the module loads and the interval is 0.
\<close>

theorem interval_at_least_one_counterexample:
  "\<not> isl (load_module [''BOT_TOKEN'' \<mapsto> ''123:ABC'', ''CHAT_ID'' \<mapsto> ''42'',
                         ''REMINDER_INTERVAL'' \<mapsto> ''0'']) \<and>
   \<not> 1 \<le> REMINDER_INTERVAL
            (projr (load_module [''BOT_TOKEN'' \<mapsto> ''123:ABC'', ''CHAT_ID'' \<mapsto> ''42'',
                                 ''REMINDER_INTERVAL'' \<mapsto> ''0'']))"
  by (simp add: load_module_def py_int_def strip_def is_space_def parse_signed_def
                parse_unsigned_def digit_val_def)

text \<open>
  C6, amended: in every loaded configuration the interval is 60 when
  \<open>REMINDER_INTERVAL\<close> is unset, and otherwise it is the integer that \<open>int\<close> reads
  from the variable, whatever its sign; no lower bound is enforced.
\<close>

theorem interval_as_given:
  assumes "load_module vars = Inr g"
  shows "(vars ''REMINDER_INTERVAL'' = None \<longrightarrow> REMINDER_INTERVAL g = 60) \<and>
         (\<forall>s. vars ''REMINDER_INTERVAL'' = Some s \<longrightarrow> py_int s = Inr (REMINDER_INTERVAL g))"
  using assms by (auto simp: load_module_def split: option.splits sum.splits)

theorem interval_as_given_witness:
  "REMINDER_INTERVAL (projr (load_module [''BOT_TOKEN'' \<mapsto> ''123:ABC'', ''CHAT_ID'' \<mapsto> ''42''])) = 60 \<and>
   py_int ''-15'' = Inr (REMINDER_INTERVAL
     (projr (load_module [''BOT_TOKEN'' \<mapsto> ''123:ABC'', ''CHAT_ID'' \<mapsto> ''42'',
                          ''REMINDER_INTERVAL'' \<mapsto> ''-15''])))"
proof -
  have a: "load_module [''BOT_TOKEN'' \<mapsto> ''123:ABC'', ''CHAT_ID'' \<mapsto> ''42''] =
      Inr \<lparr>BOT_TOKEN = Some ''123:ABC'', CHAT_ID = Some ''42'', REMINDER_INTERVAL = 60\<rparr>"
    by (simp add: load_module_def)
  have b: "load_module [''BOT_TOKEN'' \<mapsto> ''123:ABC'', ''CHAT_ID'' \<mapsto> ''42'',
                        ''REMINDER_INTERVAL'' \<mapsto> ''-15''] =
      Inr \<lparr>BOT_TOKEN = Some ''123:ABC'', CHAT_ID = Some ''42'', REMINDER_INTERVAL = - 15\<rparr>"
    by (simp add: load_module_def py_int_def strip_def is_space_def parse_signed_def
                  parse_unsigned_def digit_val_def)
  from interval_as_given [OF a] interval_as_given [OF b] a b show ?thesis by simp
qed

subsection \<open>The welcome message\<close>

lemma send_message_trace:
  "send_message E m (b, w) = (r, b', w') \<Longrightarrow> \<exists>ys. trace w' = trace w @ ys"
  by (auto simp add: send_message_def requests_post_def print_def Let_def
           split: http_outcome.splits if_splits)

lemma send_water_reminder_trace:
  "send_water_reminder E (b, w) = (r, b', w') \<Longrightarrow> \<exists>ys. trace w' = trace w @ ys"
  by (auto simp add: send_water_reminder_def random_choice_def messages_def Let_def
           dest!: send_message_trace)

lemma run_jobs_trace:
  "run_jobs E is s = (r, b', w') \<Longrightarrow> \<exists>ys. trace w' = trace (snd s) @ ys"
proof (induction E "is" s arbitrary: r b' w' rule: run_jobs.induct)
  case (1 E s)
  then show ?case by auto
next
  case (2 E i rest self w)
  define j where "j = jobs w ! i"
  show ?case
  proof (cases "next_run j \<le> int (clock w)")
    case False
    with 2(3) have "run_jobs E rest (self, w) = (r, b', w')"
      by (simp add: j_def Let_def)
    from 2(2) [OF j_def False this] show ?thesis by simp
  next
    case True
    obtain r1 b1 w1 where swr: "send_water_reminder E (self, w) = (r1, b1, w1)"
      by (cases "send_water_reminder E (self, w)") auto
    from send_water_reminder_trace [OF swr] obtain ys where ys: "trace w1 = trace w @ ys" ..
    show ?thesis
    proof (cases r1)
      case (Inl e)
      with 2(3) True swr have "(r, b', w') = (Inl e, b1, w1)" by (simp add: j_def Let_def)
      with ys show ?thesis by simp
    next
      case (Inr u)
      with 2(3) True swr
      have "run_jobs E rest (b1, w1\<lparr>jobs := (jobs w1)[i := j\<lparr>next_run := int (clock w1) + 60 * interval j\<rparr>]\<rparr>) = (r, b', w')"
        by (simp add: j_def Let_def)
      from 2(1) [OF j_def True _ _ _ this, of r1 "(b1, w1)" u] swr Inr
      obtain zs where "trace w' = trace w1 @ zs" by auto
      with ys show ?thesis by simp
    qed
  qed
qed

lemma loop_body_trace:
  assumes "loop_body E (b, w) = (r, b', w')"
  shows "\<exists>ys. trace w' = trace w @ ys"
proof -
  obtain r1 b1 w1 where rp: "run_pending E (b, w) = (r1, b1, w1)"
    by (cases "run_pending E (b, w)") auto
  then obtain ys where ys: "trace w1 = trace w @ ys"
    unfolding run_pending_def by (auto dest: run_jobs_trace)
  show ?thesis
  proof (cases r1)
    case (Inl e)
    with assms rp ys show ?thesis by (auto simp: loop_body_def)
  next
    case (Inr u)
    with assms rp have "trace w' = trace w1 @ [Sleep 1]"
      by (auto simp: loop_body_def sleep_def Let_def split: option.splits)
    with ys show ?thesis by simp
  qed
qed

lemma turns_trace: "\<exists>ys. trace (snd (snd (turns E n (b, w)))) = trace w @ ys"
proof (induction n arbitrary: b w)
  case 0
  show ?case by simp
next
  case (Suc n)
  obtain r1 b1 w1 where lb: "loop_body E (b, w) = (r1, b1, w1)"
    by (cases "loop_body E (b, w)") auto
  from loop_body_trace [OF lb] obtain ys where ys: "trace w1 = trace w @ ys" ..
  show ?case
  proof (cases r1)
    case (Inl e)
    with lb ys show ?thesis by simp
  next
    case (Inr u)
    from Suc [of b1 w1] obtain zs where "trace (snd (snd (turns E n (b1, w1)))) = trace w1 @ zs" ..
    with lb Inr ys show ?thesis by simp
  qed
qed

text \<open>
  C4, as stated (the welcome message is sent before the recurring task is
  scheduled), fails: in the sample run the call to the scheduler is the third event
  of the trace and the POST of the welcome message the fourth.
\<close>

theorem welcome_before_schedule_counterexample:
  "first_index is_Every
     (trace (snd (snd (startup (sample_env (Response 200 ''{}'') 0 KeyboardInterrupt)
        (sample_globals 60) (WaterReminderBot ''123:ABC'' ''42'', fresh_world))))) = 2 \<and>
   first_index is_Post
     (trace (snd (snd (startup (sample_env (Response 200 ''{}'') 0 KeyboardInterrupt)
        (sample_globals 60) (WaterReminderBot ''123:ABC'' ''42'', fresh_world))))) = 3 \<and>
   \<not> first_index is_Post
     (trace (snd (snd (startup (sample_env (Response 200 ''{}'') 0 KeyboardInterrupt)
        (sample_globals 60) (WaterReminderBot ''123:ABC'' ''42'', fresh_world))))) <
     first_index is_Every
     (trace (snd (snd (startup (sample_env (Response 200 ''{}'') 0 KeyboardInterrupt)
        (sample_globals 60) (WaterReminderBot ''123:ABC'' ''42'', fresh_world)))))"
  unfolding sample_startup by (simp add: first_index_def fresh_world_def)

text \<open>
  C4, amended: before its loop \<open>start_reminders\<close> prints two lines, schedules the
  recurring task, and then makes exactly one POST, the welcome message; anything
  after that POST up to the loop is printed lines. Whatever the loop does, in any
  number of turns, comes after.
\<close>

theorem startup_one_welcome:
  "\<exists>log. list_all is_Print log \<and>
     trace (snd (snd (startup E g (b, w)))) =
       trace w @
       [Print (rocket @ '' Water reminder bot started!''),
        Print (stopwatch @ '' Reminder interval: '' @ str_int (REMINDER_INTERVAL g) @ '' minutes''),
        Every (REMINDER_INTERVAL g),
        Post (base_url b @ ''/sendMessage'')
          [(''chat_id'', chat_id b), (''text'', welcome_message (REMINDER_INTERVAL g)),
           (''parse_mode'', ''HTML'')]] @ log \<and>
     (\<forall>n. \<exists>later. trace (snd (snd (turns E n (snd (startup E g (b, w)))))) =
        trace (snd (snd (startup E g (b, w)))) @ later)"
proof -
  define w3 where "w3 = every_minutes_do (REMINDER_INTERVAL g)
      (print (stopwatch @ '' Reminder interval: '' @ str_int (REMINDER_INTERVAL g) @ '' minutes'')
        (print (rocket @ '' Water reminder bot started!'') w))"
  have st: "startup E g (b, w) = send_message E (welcome_message (REMINDER_INTERVAL g)) (b, w3)"
    by (simp add: startup_def w3_def Let_def)
  have tr3: "trace w3 = trace w @
       [Print (rocket @ '' Water reminder bot started!''),
        Print (stopwatch @ '' Reminder interval: '' @ str_int (REMINDER_INTERVAL g) @ '' minutes''),
        Every (REMINDER_INTERVAL g)]"
    by (simp add: w3_def every_minutes_do_def print_def)
  have "\<exists>log. list_all is_Print log \<and>
     trace (snd (snd (send_message E m (b, w3)))) =
       trace w3 @ Post (base_url b @ ''/sendMessage'')
          [(''chat_id'', chat_id b), (''text'', m), (''parse_mode'', ''HTML'')] # log" for m
  proof (cases "http E (posts_made w3)")
    case (Response c t)
    then show ?thesis
      by (intro exI [of _ "[Print (if c = 200 then check_mark @ '' Message sent: '' @ m
                                   else cross_mark @ '' Failed to send message: '' @ t)]"])
         (simp add: send_message_def requests_post_def print_def Let_def)
  next
    case (Raises e)
    then show ?thesis
      by (intro exI [of _ "if is_Exception e
                           then [Print (cross_mark @ '' Error sending message: '' @ str_exn e)]
                           else []"])
         (simp add: send_message_def requests_post_def print_def Let_def)
  qed
  then obtain log where log: "list_all is_Print log"
    "trace (snd (snd (startup E g (b, w)))) =
       trace w3 @ Post (base_url b @ ''/sendMessage'')
          [(''chat_id'', chat_id b), (''text'', welcome_message (REMINDER_INTERVAL g)),
           (''parse_mode'', ''HTML'')] # log"
    unfolding st by blast
  have later: "\<exists>later. trace (snd (snd (turns E n (snd (startup E g (b, w)))))) =
        trace (snd (snd (startup E g (b, w)))) @ later" for n
    using turns_trace [of E n "fst (snd (startup E g (b, w)))" "snd (snd (startup E g (b, w)))"]
    by simp
  from log tr3 later show ?thesis
    by (intro exI [of _ log]) simp
qed

end
